theory Spec2Isabelle
  imports Complex_Main
begin

section \<open>JavaScript values\<close>

text \<open>
  The components handle loosely typed data: the payload of a rejected request, the body of
  a response, the list of model descriptors. These are values obtained from JSON, so they
  are modelled by the datatype \<open>jsval\<close>. A number is an IEEE double: a finite value
  (a rational; both zeros are \<open>Finite 0\<close>), one of the two infinities, or NaN. An
  object is the list of its own properties, each name once.

  A JavaScript string is modelled by \<open>string\<close>, each \<open>char\<close> being one code unit
  below 256 (the Latin-1 range); on these strings \<open>trim\<close> and \<open>toLowerCase\<close>
  below are the functions of the language.
\<close>

datatype jsnum = NaN | PosInfinity | NegInfinity | Finite rat

datatype jsval =
    JUndefined
  | JNull
  | JBool bool
  | JNum jsnum
  | JStr string
  | JArr "jsval list"
  | JObj "(string \<times> jsval) list"

text \<open>\<open>truthy v\<close> is the result of \<open>Boolean(v)\<close>.\<close>

fun truthy :: "jsval \<Rightarrow> bool" where
  "truthy JUndefined = False"
| "truthy JNull = False"
| "truthy (JBool b) = b"
| "truthy (JNum NaN) = False"
| "truthy (JNum PosInfinity) = True"
| "truthy (JNum NegInfinity) = True"
| "truthy (JNum (Finite r)) = (r \<noteq> 0)"
| "truthy (JStr s) = (s \<noteq> [])"
| "truthy (JArr _) = True"
| "truthy (JObj _) = True"

text \<open>The operators \<open>a || b\<close>, \<open>a && b\<close> and \<open>a ?? b\<close>.\<close>

definition js_or :: "jsval \<Rightarrow> jsval \<Rightarrow> jsval" where
  "js_or a b = (if truthy a then a else b)"

definition js_and :: "jsval \<Rightarrow> jsval \<Rightarrow> jsval" where
  "js_and a b = (if truthy a then b else a)"

definition js_nc :: "jsval \<Rightarrow> jsval \<Rightarrow> jsval" where
  "js_nc a b = (if a = JUndefined \<or> a = JNull then b else a)"

text \<open>
  \<open>opt_get v k\<close> is the optional property read \<open>v?.k\<close>: undefined on null and
  undefined, the own property of an object, and undefined on the other values for every
  name the components read (data, content, answer, context, filename, error, details,
  detail, message, models, name: none of them is a property of a prototype).
\<close>

fun opt_get :: "jsval \<Rightarrow> string \<Rightarrow> jsval" where
  "opt_get (JObj kvs) k = (case map_of kvs k of Some v \<Rightarrow> v | None \<Rightarrow> JUndefined)"
| "opt_get _ k = JUndefined"

text \<open>\<open>typeof v === 'string'\<close>.\<close>

fun is_string :: "jsval \<Rightarrow> bool" where
  "is_string (JStr _) = True"
| "is_string _ = False"

text \<open>
  The part of the language run-time that is not fixed by the program: how a number prints,
  and the message of the TypeError the engine raises.
\<close>

record runtime =
  numberToString :: "jsnum \<Rightarrow> string"
  typeErrorMessage :: string

text \<open>
  \<open>js_toString rt v\<close> is the method call \<open>v.toString()\<close>; \<open>None\<close> is a raised
  TypeError. An object from JSON prints as \<open>[object Object]\<close> unless it has an own
  property \<open>toString\<close>, which is then not callable. An array joins its elements with
  commas, null and undefined elements printing as the empty string.
\<close>

fun js_toString :: "runtime \<Rightarrow> jsval \<Rightarrow> string option"
  and js_join :: "runtime \<Rightarrow> jsval list \<Rightarrow> string option"
  and js_element :: "runtime \<Rightarrow> jsval \<Rightarrow> string option" where
  "js_toString rt JUndefined = None"
| "js_toString rt JNull = None"
| "js_toString rt (JBool b) = Some (if b then ''true'' else ''false'')"
| "js_toString rt (JNum n) = Some (numberToString rt n)"
| "js_toString rt (JStr s) = Some s"
| "js_toString rt (JArr xs) = js_join rt xs"
| "js_toString rt (JObj kvs) =
     (if ''toString'' \<in> set (map fst kvs) then None else Some ''[object Object]'')"
| "js_join rt [] = Some []"
| "js_join rt [x] = js_element rt x"
| "js_join rt (x # y # ys) =
     (case js_element rt x of
        None \<Rightarrow> None
      | Some a \<Rightarrow> (case js_join rt (y # ys) of None \<Rightarrow> None | Some b \<Rightarrow> Some (a @ '','' @ b)))"
| "js_element rt JUndefined = Some []"
| "js_element rt JNull = Some []"
| "js_element rt (JBool b) = js_toString rt (JBool b)"
| "js_element rt (JNum n) = js_toString rt (JNum n)"
| "js_element rt (JStr s) = js_toString rt (JStr s)"
| "js_element rt (JArr xs) = js_toString rt (JArr xs)"
| "js_element rt (JObj kvs) = js_toString rt (JObj kvs)"

text \<open>The error object a failed method call throws, as the catch clause reads it.\<close>

definition typeError :: "runtime \<Rightarrow> jsval" where
  "typeError rt = JObj [(''message'', JStr (typeErrorMessage rt))]"

section \<open>Strings\<close>

text \<open>White space and line terminators of the language, among the code units below 256.\<close>

definition is_ws :: "char \<Rightarrow> bool" where
  "is_ws c = (c \<in> {CHR 0x09, CHR 0x0A, CHR 0x0B, CHR 0x0C, CHR 0x0D, CHR 0x20, CHR 0xA0})"

definition trim :: "string \<Rightarrow> string" where
  "trim s = rev (dropWhile is_ws (rev (dropWhile is_ws s)))"

text \<open>
  Lower case of one code unit: the letters A to Z, and the capital letters of Latin-1
  (0xC0 to 0xDE without the multiplication sign 0xD7), move up by 32.
\<close>

definition lower_char :: "char \<Rightarrow> char" where
  "lower_char c =
     (let n = (of_char c :: nat) in
      if (65 \<le> n \<and> n \<le> 90) \<or> (192 \<le> n \<and> n \<le> 222 \<and> n \<noteq> 215)
      then char_of (n + 32) else c)"

definition toLowerCase :: "string \<Rightarrow> string" where
  "toLowerCase s = map lower_char s"

definition endsWith :: "string \<Rightarrow> string \<Rightarrow> bool" where
  "endsWith s suffix =
     (length suffix \<le> length s \<and> drop (length s - length suffix) s = suffix)"

section \<open>The HTTP collaborator\<close>

record File =
  name :: string
  bytes :: "nat list"

datatype body = Json jsval | FormData "(string \<times> File) list"

text \<open>A request: the URL, the body and the headers given by the caller.\<close>

datatype request = Get string | Post string body "(string \<times> string) list"

definition endpoint_chat :: string where "endpoint_chat = ''/api/llm/chat''"
definition endpoint_models :: string where "endpoint_models = ''/api/llm/models''"
definition endpoint_ragProcess :: string where "endpoint_ragProcess = ''/api/llm/rag/process''"
definition endpoint_ragQuery :: string where "endpoint_ragQuery = ''/api/llm/rag/query''"

text \<open>
  The response interceptor of \<open>utils/axios.ts\<close>. A response passes unchanged; an error
  is replaced by \<open>(error.response && error.response.data) || 'Something went wrong'\<close>,
  which is what the awaiting component catches. \<open>response\<close> is undefined when the
  request got no response.
\<close>

record AxiosError =
  response :: jsval

definition interceptor_rejected :: "AxiosError \<Rightarrow> jsval" where
  "interceptor_rejected err =
     js_or (js_and (response err) (opt_get (response err) ''data''))
           (JStr ''Something went wrong'')"

section \<open>The chat component (LLMChat)\<close>

datatype ChatRole = System | User | Assistant

fun role_name :: "ChatRole \<Rightarrow> string" where
  "role_name System = ''system''"
| "role_name User = ''user''"
| "role_name Assistant = ''assistant''"

record ChatMessage =
  id_m :: string
  role :: ChatRole
  content :: string

text \<open>
  The state of the component: one field for each \<open>useState\<close>. The fields typed
  \<open>string\<close> in the source that receive values of the server unchecked (\<open>model\<close>,
  \<open>availableModels\<close>, \<open>error\<close>) hold a \<open>jsval\<close>.
\<close>

record LLMChat =
  availableModels :: "jsval list"
  model :: jsval
  systemPrompt :: string
  messages :: "ChatMessage list"
  draft :: string
  loading :: bool
  error :: jsval

definition LLMChat_init :: LLMChat where
  "LLMChat_init =
     \<lparr>availableModels = [], model = JStr [], systemPrompt = ''You are a helpful assistant.'',
      messages = [], draft = [], loading = False, error = JStr []\<rparr>"

text \<open>The object literal \<open>{ role, content }\<close> and \<open>Array.prototype.push\<close>.\<close>

definition role_content :: "ChatRole \<Rightarrow> string \<Rightarrow> jsval" where
  "role_content r c = JObj [(''role'', JStr (role_name r)), (''content'', JStr c)]"

definition push :: "'a list \<Rightarrow> 'a \<Rightarrow> 'a list" where
  "push xs x = xs @ [x]"

definition requestMessages :: "LLMChat \<Rightarrow> jsval list" where
  "requestMessages s =
     (let base = (if trim (systemPrompt s) \<noteq> []
                  then push [] (role_content System (trim (systemPrompt s))) else [])
      in foldl (\<lambda>base m. push base (role_content (role m) (content m))) base (messages s))"

text \<open>
  An event handler runs on the state of the last render; the state updates it makes are
  committed before the next event is handled. The asynchronous \<open>send\<close> is therefore three
  transitions: \<open>send\<close> itself up to the request it issues (\<open>None\<close>: it returned
  before any request), and one continuation for each outcome of the awaited request,
  which runs on the state of its own time. \<open>uid\<close> and \<open>aid\<close> are the results of
  \<open>makeId()\<close>.
\<close>

definition send :: "string \<Rightarrow> LLMChat \<Rightarrow> LLMChat \<times> request option" where
  "send uid s =
     (let text = trim (draft s) in
      if text = [] \<or> loading s then (s, None)
      else
        (s\<lparr>error := JStr [], loading := True,
           messages := messages s @ [\<lparr>id_m = uid, role = User, content = text\<rparr>],
           draft := []\<rparr>,
         Some (Post endpoint_chat
           (Json (JObj
             [(''model'', js_or (model s) JUndefined),
              (''messages'', JArr (requestMessages s @ [role_content User text])),
              (''options'', JObj [])]))
           [])))"

text \<open>The catch clause of \<open>send\<close>, followed by its finally clause.\<close>

definition errorMessage :: "jsval \<Rightarrow> jsval" where
  "errorMessage e =
     js_or (js_or (js_or (js_or (js_or
       (js_and (JBool (is_string e)) e)
       (opt_get e ''error''))
       (opt_get (opt_get e ''details'') ''error''))
       (opt_get (opt_get e ''details'') ''detail''))
       (opt_get e ''message''))
       (JStr ''Failed to send message'')"

definition send_rejected :: "jsval \<Rightarrow> LLMChat \<Rightarrow> LLMChat" where
  "send_rejected e s = s\<lparr>error := errorMessage e, loading := False\<rparr>"

text \<open>
  The rest of the try block, after the request resolved with \<open>res\<close>:
  \<open>(res?.data?.content ?? '').toString()\<close>, whose TypeError is caught by the same catch
  clause, then the assistant message and the finally clause.
\<close>

definition send_fulfilled :: "runtime \<Rightarrow> string \<Rightarrow> jsval \<Rightarrow> LLMChat \<Rightarrow> LLMChat" where
  "send_fulfilled rt aid res s =
     (case js_toString rt (js_nc (opt_get (opt_get res ''data'') ''content'') (JStr [])) of
        None \<Rightarrow> send_rejected (typeError rt) s
      | Some c \<Rightarrow>
          s\<lparr>messages := messages s @
               [\<lparr>id_m = aid, role = Assistant,
                 content = (if c \<noteq> [] then c else ''(empty response)'')\<rparr>],
            loading := False\<rparr>)"

definition clearChat :: "LLMChat \<Rightarrow> LLMChat" where
  "clearChat s = s\<lparr>messages := [], error := JStr []\<rparr>"

text \<open>
  \<open>loadModels\<close>, run once by the effect of the first render: the request it issues, and
  its two continuations. \<open>mounted\<close> is the flag the clean-up of the effect resets;
  \<open>c\<close> is the state of the render that created the effect, from which the closure
  reads \<open>model\<close>. Calling \<open>map\<close> on a value that is no array raises a TypeError,
  which the catch clause handles.
\<close>

definition loadModels :: request where
  "loadModels = Get endpoint_models"

definition loadModels_rejected :: "bool \<Rightarrow> LLMChat \<Rightarrow> LLMChat" where
  "loadModels_rejected mounted s = (if \<not> mounted then s else s\<lparr>availableModels := []\<rparr>)"

definition loadModels_fulfilled :: "bool \<Rightarrow> LLMChat \<Rightarrow> jsval \<Rightarrow> LLMChat \<Rightarrow> LLMChat" where
  "loadModels_fulfilled mounted c data s =
     (case js_nc (js_nc (opt_get (opt_get data ''data'') ''models'') (opt_get data ''models''))
                 (JArr []) of
        JArr models \<Rightarrow>
          (let names = filter truthy (map (\<lambda>m. opt_get m ''name'') models) in
           if \<not> mounted then s
           else
             (case names of
                [] \<Rightarrow> s\<lparr>availableModels := names\<rparr>
              | first # _ \<Rightarrow>
                  if \<not> truthy (model c) then s\<lparr>availableModels := names, model := first\<rparr>
                  else s\<lparr>availableModels := names\<rparr>))
      | _ \<Rightarrow> loadModels_rejected mounted s)"

section \<open>The document component (MultimodalRAG)\<close>

text \<open>
  Its message has the roles user and assistant only, a content that is the answer of the
  server as it came, and an optional context.
\<close>

record ChatMessage_rag =
  id_rag :: string
  role_rag :: ChatRole
  content_rag :: jsval
  context_rag :: "jsval option"

record MultimodalRAG =
  messages_rag :: "ChatMessage_rag list"
  draft_rag :: string
  loading_rag :: bool
  uploading :: bool
  error_rag :: jsval
  uploadSuccess :: string
  processedFiles :: "jsval list"

definition MultimodalRAG_init :: MultimodalRAG where
  "MultimodalRAG_init =
     \<lparr>messages_rag = [], draft_rag = [], loading_rag = False, uploading = False,
      error_rag = JStr [], uploadSuccess = [], processedFiles = []\<rparr>"

definition send_rag :: "string \<Rightarrow> MultimodalRAG \<Rightarrow> MultimodalRAG \<times> request option" where
  "send_rag uid s =
     (let text = trim (draft_rag s) in
      if text = [] \<or> loading_rag s then (s, None)
      else
        (s\<lparr>error_rag := JStr [], loading_rag := True,
           messages_rag := messages_rag s @
             [\<lparr>id_rag = uid, role_rag = User, content_rag = JStr text, context_rag = None\<rparr>],
           draft_rag := []\<rparr>,
         Some (Post endpoint_ragQuery (Json (JObj [(''question'', JStr text)])) [])))"

definition send_rejected_rag :: "jsval \<Rightarrow> MultimodalRAG \<Rightarrow> MultimodalRAG" where
  "send_rejected_rag e s = s\<lparr>error_rag := errorMessage e, loading_rag := False\<rparr>"

definition send_fulfilled_rag :: "string \<Rightarrow> jsval \<Rightarrow> MultimodalRAG \<Rightarrow> MultimodalRAG" where
  "send_fulfilled_rag aid res s =
     (let answer = js_or (opt_get (opt_get res ''data'') ''answer'') (JStr ''(empty response)'');
          context = js_or (opt_get (opt_get res ''data'') ''context'') (JObj [])
      in s\<lparr>messages_rag := messages_rag s @
              [\<lparr>id_rag = aid, role_rag = Assistant, content_rag = answer,
                context_rag = Some context\<rparr>],
           loading_rag := False\<rparr>)"

definition clearChat_rag :: "MultimodalRAG \<Rightarrow> MultimodalRAG" where
  "clearChat_rag s = s\<lparr>messages_rag := [], error_rag := JStr []\<rparr>"

text \<open>
  \<open>handleFileUpload\<close> up to the request it issues; \<open>files\<close> is
  \<open>event.target.files\<close>, null or a list.
\<close>

definition handleFileUpload ::
  "File list option \<Rightarrow> MultimodalRAG \<Rightarrow> MultimodalRAG \<times> request option" where
  "handleFileUpload files s =
     (case files of
        None \<Rightarrow> (s, None)
      | Some [] \<Rightarrow> (s, None)
      | Some (file # _) \<Rightarrow>
          if \<not> endsWith (toLowerCase (name file)) ''.pdf''
          then (s\<lparr>error_rag := JStr ''Please upload a PDF file''\<rparr>, None)
          else
            (s\<lparr>error_rag := JStr [], uploadSuccess := [], uploading := True\<rparr>,
             Some (Post endpoint_ragProcess (FormData [(''file'', file)])
                     [(''Content-Type'', ''multipart/form-data'')])))"

definition uploadErrorMessage :: "jsval \<Rightarrow> jsval" where
  "uploadErrorMessage e =
     js_or (js_or (js_or (js_or
       (js_and (JBool (is_string e)) e)
       (opt_get e ''error''))
       (opt_get e ''details''))
       (opt_get e ''message''))
       (JStr ''Failed to upload and process PDF'')"

definition handleFileUpload_rejected :: "jsval \<Rightarrow> MultimodalRAG \<Rightarrow> MultimodalRAG" where
  "handleFileUpload_rejected e s = s\<lparr>error_rag := uploadErrorMessage e, uploading := False\<rparr>"

text \<open>
  The rest of its try block. \<open>res.data.filename\<close> raises a TypeError when \<open>res.data\<close>
  is null or undefined, and so does the template string on a value that has no string
  form.
\<close>

definition handleFileUpload_fulfilled ::
  "runtime \<Rightarrow> File \<Rightarrow> jsval \<Rightarrow> MultimodalRAG \<Rightarrow> MultimodalRAG" where
  "handleFileUpload_fulfilled rt file res s =
     (let d = opt_get res ''data'' in
      if d = JUndefined \<or> d = JNull then handleFileUpload_rejected (typeError rt) s
      else
        (let shown = js_or (opt_get d ''filename'') (JStr (name file)) in
         case js_toString rt shown of
           None \<Rightarrow> handleFileUpload_rejected (typeError rt) s
         | Some t \<Rightarrow>
             s\<lparr>uploadSuccess := ''Successfully processed: '' @ t,
               processedFiles := processedFiles s @ [shown],
               uploading := False\<rparr>))"

subsection \<open>The controls of the document component\<close>

text \<open>
  \<open>LoadingButton\<close> renders \<open>disabled={loading}\<close> and then spreads the remaining
  props, so a \<open>disabled\<close> prop of the caller replaces the one from \<open>loading\<close>.
\<close>

definition LoadingButton_disabled :: "bool \<Rightarrow> bool option \<Rightarrow> bool" where
  "LoadingButton_disabled loading_prop disabled_prop =
     (case disabled_prop of Some d \<Rightarrow> d | None \<Rightarrow> loading_prop)"

text \<open>
  The events of the user on the rendered controls: the Clear button, the draft text area
  (a change of its value, the Enter key without Shift), the Send button, the file input.
  A disabled control delivers no event.
\<close>

datatype event_rag =
    Clear_click
  | Draft_change string
  | Draft_enter
  | Send_click
  | File_change "File list option"

fun disabled_rag :: "MultimodalRAG \<Rightarrow> event_rag \<Rightarrow> bool" where
  "disabled_rag s Clear_click = False"
| "disabled_rag s (Draft_change v) = (loading_rag s \<or> uploading s)"
| "disabled_rag s Draft_enter = (loading_rag s \<or> uploading s)"
| "disabled_rag s Send_click = LoadingButton_disabled (loading_rag s) (Some (uploading s))"
| "disabled_rag s (File_change files) = uploading s"

fun handler_rag :: "string \<Rightarrow> event_rag \<Rightarrow> MultimodalRAG \<Rightarrow> MultimodalRAG \<times> request option" where
  "handler_rag uid Clear_click s = (clearChat_rag s, None)"
| "handler_rag uid (Draft_change v) s = (s\<lparr>draft_rag := v\<rparr>, None)"
| "handler_rag uid Draft_enter s = send_rag uid s"
| "handler_rag uid Send_click s = send_rag uid s"
| "handler_rag uid (File_change files) s = handleFileUpload files s"

definition dispatch_rag ::
  "string \<Rightarrow> event_rag \<Rightarrow> MultimodalRAG \<Rightarrow> MultimodalRAG \<times> request option" where
  "dispatch_rag uid ev s = (if disabled_rag s ev then (s, None) else handler_rag uid ev s)"

section \<open>Notions of the specification\<close>

text \<open>
  The definitions of this section follow the words of the specification, not the code;
  the theorems compare the code with them.

  The payload the specification asks for: the system instruction if it is not empty, the
  prior transcript in order, the new user message.
\<close>

definition full_history :: "string \<Rightarrow> ChatMessage list \<Rightarrow> string \<Rightarrow> jsval list" where
  "full_history instruction transcript text =
     (if trim instruction = [] then [] else [role_content System (trim instruction)])
     @ map (\<lambda>m. role_content (role m) (content m)) transcript
     @ [role_content User text]"

text \<open>The document component has no system instruction.\<close>

definition full_history_rag :: "ChatMessage_rag list \<Rightarrow> string \<Rightarrow> jsval list" where
  "full_history_rag transcript text =
     map (\<lambda>m. JObj [(''role'', JStr (role_name (role_rag m))), (''content'', content_rag m)])
       transcript
     @ [role_content User text]"

text \<open>A request carries a history when the \<open>messages\<close> of its body are that list.\<close>

definition carries_history :: "request option \<Rightarrow> jsval list \<Rightarrow> bool" where
  "carries_history r history =
     (case r of
        Some (Post url (Json b) headers) \<Rightarrow> opt_get b ''messages'' = JArr history
      | _ \<Rightarrow> False)"

text \<open>
  The first available candidate in a fixed order of priority, with a fallback. A candidate
  is available when it is truthy.
\<close>

fun first_available :: "jsval list \<Rightarrow> jsval \<Rightarrow> jsval" where
  "first_available [] fallback = fallback"
| "first_available (c # cs) fallback = (if truthy c then c else first_available cs fallback)"

text \<open>
  A name ends in \<open>.pdf\<close> without regard to case: its last four characters are a dot,
  p or P, d or D, f or F.
\<close>

definition pdf_suffix :: "string \<Rightarrow> bool" where
  "pdf_suffix s =
     (case rev s of
        c3 # c2 # c1 # c0 # _ \<Rightarrow>
          c0 = CHR ''.'' \<and> c1 \<in> {CHR ''p'', CHR ''P''} \<and> c2 \<in> {CHR ''d'', CHR ''D''}
          \<and> c3 \<in> {CHR ''f'', CHR ''F''}
      | _ \<Rightarrow> False)"

text \<open>The network calls among the outcomes of a sequence of handler runs.\<close>

fun network_calls :: "request option list \<Rightarrow> request list" where
  "network_calls [] = []"
| "network_calls (None # rs) = network_calls rs"
| "network_calls (Some r # rs) = r # network_calls rs"

subsection \<open>Example states and responses\<close>

text \<open>The document component after one exchange, with a second question typed.\<close>

definition rag_second_turn :: MultimodalRAG where
  "rag_second_turn =
     MultimodalRAG_init
       \<lparr>messages_rag :=
          [\<lparr>id_rag = ''m1'', role_rag = User, content_rag = JStr ''first'', context_rag = None\<rparr>,
           \<lparr>id_rag = ''m2'', role_rag = Assistant, content_rag = JStr ''reply'',
             context_rag = Some (JObj [])\<rparr>],
        draft_rag := ''second''\<rparr>"

definition report_pdf :: File where
  "report_pdf = \<lparr>name = ''Report.PDF'', bytes = [37, 80, 68, 70]\<rparr>"

text \<open>
  The document component after the user typed a question and then chose a PDF file: the
  upload is in flight.
\<close>

definition rag_upload_in_flight :: MultimodalRAG where
  "rag_upload_in_flight =
     fst (dispatch_rag ''u1'' (File_change (Some [report_pdf]))
       (fst (dispatch_rag ''u0'' (Draft_change ''hello'') MultimodalRAG_init)))"

text \<open>
  A run-time for examples in which no number is printed: it prints every number as
  \<open>NaN\<close>.
\<close>

definition example_runtime :: runtime where
  "example_runtime =
     \<lparr>numberToString = (\<lambda>n. ''NaN''),
      typeErrorMessage = ''Cannot convert object to primitive value''\<rparr>"

text \<open>A response of the models endpoint; two of its four descriptors have a name.\<close>

definition models_response :: jsval where
  "models_response =
     JObj [(''data'', JObj [(''models'',
       JArr [JObj [(''name'', JStr ''llama3'')], JObj [(''size'', JNum (Finite 7))],
             JObj [(''name'', JStr [])], JObj [(''name'', JStr ''mistral'')]])])]"

section \<open>Auxiliary facts\<close>

lemma foldl_push:
  "foldl (\<lambda>base m. push base (f m)) base ms = base @ map f ms"
  by (induction ms arbitrary: base) (simp_all add: push_def)

lemma requestMessages_eq:
  "requestMessages s =
     (if trim (systemPrompt s) = [] then [] else [role_content System (trim (systemPrompt s))])
     @ map (\<lambda>m. role_content (role m) (content m)) (messages s)"
  unfolding requestMessages_def foldl_push by (simp add: push_def)

lemma errorMessage_first_available:
  "errorMessage e =
     first_available
       [if is_string e then e else JUndefined,
        opt_get e ''error'',
        opt_get (opt_get e ''details'') ''error'',
        opt_get (opt_get e ''details'') ''detail'',
        opt_get e ''message'']
       (JStr ''Failed to send message'')"
  by (simp add: errorMessage_def js_or_def js_and_def)

lemma truthy_errorMessage: "truthy (errorMessage e)"
  by (simp add: errorMessage_def js_or_def)

lemma of_char_lower_char:
  "(of_char (lower_char x) :: nat) =
     (if (65 \<le> (of_char x :: nat) \<and> (of_char x :: nat) \<le> 90)
         \<or> (192 \<le> (of_char x :: nat) \<and> (of_char x :: nat) \<le> 222
             \<and> (of_char x :: nat) \<noteq> 215)
      then of_char x + 32 else of_char x)"
proof -
  have "(of_char x :: nat) < 256" by simp
  then show ?thesis by (auto simp: lower_char_def Let_def)
qed

lemma lower_char_eq_iff:
  "lower_char x = c \<longleftrightarrow> (of_char (lower_char x) :: nat) = of_char c"
  by (simp only: of_char_eq_iff)

lemma char_eq_code: "x = c \<longleftrightarrow> (of_char x :: nat) = of_char c"
  by (simp only: of_char_eq_iff)

lemma lower_char_dot: "lower_char x = CHR ''.'' \<longleftrightarrow> x = CHR ''.''"
  unfolding lower_char_eq_iff [of x] char_eq_code [of x] of_char_lower_char by auto

lemma lower_char_p: "lower_char x = CHR ''p'' \<longleftrightarrow> x = CHR ''p'' \<or> x = CHR ''P''"
  unfolding lower_char_eq_iff [of x] char_eq_code [of x] of_char_lower_char by auto

lemma lower_char_d: "lower_char x = CHR ''d'' \<longleftrightarrow> x = CHR ''d'' \<or> x = CHR ''D''"
  unfolding lower_char_eq_iff [of x] char_eq_code [of x] of_char_lower_char by auto

lemma lower_char_f: "lower_char x = CHR ''f'' \<longleftrightarrow> x = CHR ''f'' \<or> x = CHR ''F''"
  unfolding lower_char_eq_iff [of x] char_eq_code [of x] of_char_lower_char by auto

lemma endsWith_rev: "endsWith s suffix \<longleftrightarrow> take (length suffix) (rev s) = rev suffix"
proof
  assume "endsWith s suffix"
  then show "take (length suffix) (rev s) = rev suffix"
    by (simp add: endsWith_def take_rev)
next
  assume h: "take (length suffix) (rev s) = rev suffix"
  then have "length (take (length suffix) (rev s)) = length suffix" by simp
  then have "length suffix \<le> length s" by simp
  moreover from h have "drop (length s - length suffix) s = suffix"
    by (simp add: take_rev)
  ultimately show "endsWith s suffix" by (simp add: endsWith_def)
qed

lemma endsWith_pdf: "endsWith (toLowerCase s) ''.pdf'' \<longleftrightarrow> pdf_suffix s"
proof -
  have "endsWith (toLowerCase s) ''.pdf'' \<longleftrightarrow>
          take (Suc (Suc (Suc (Suc 0)))) (map lower_char (rev s)) =
            [CHR ''f'', CHR ''d'', CHR ''p'', CHR ''.'']"
    by (simp add: endsWith_rev toLowerCase_def rev_map)
  also have "\<dots> \<longleftrightarrow> pdf_suffix s"
    by (auto simp: pdf_suffix_def lower_char_dot lower_char_p lower_char_d lower_char_f
          split: list.splits)
  finally show ?thesis .
qed

lemma send_accepted:
  "trim (draft s) \<noteq> [] \<Longrightarrow> \<not> loading s \<Longrightarrow>
   send uid s =
     (s\<lparr>error := JStr [], loading := True,
        messages := messages s @ [\<lparr>id_m = uid, role = User, content = trim (draft s)\<rparr>],
        draft := []\<rparr>,
      Some (Post endpoint_chat
        (Json (JObj
          [(''model'', js_or (model s) JUndefined),
           (''messages'', JArr (requestMessages s @ [role_content User (trim (draft s))])),
           (''options'', JObj [])]))
        []))"
  by (simp add: send_def Let_def)

lemma send_refused:
  "trim (draft s) = [] \<or> loading s \<Longrightarrow> send uid s = (s, None)"
  by (auto simp: send_def Let_def)

lemma send_rag_accepted:
  "trim (draft_rag r) \<noteq> [] \<Longrightarrow> \<not> loading_rag r \<Longrightarrow>
   send_rag uid r =
     (r\<lparr>error_rag := JStr [], loading_rag := True,
        messages_rag := messages_rag r @
          [\<lparr>id_rag = uid, role_rag = User, content_rag = JStr (trim (draft_rag r)),
            context_rag = None\<rparr>],
        draft_rag := []\<rparr>,
      Some (Post endpoint_ragQuery (Json (JObj [(''question'', JStr (trim (draft_rag r)))])) []))"
  by (simp add: send_rag_def Let_def)

lemma send_rag_refused:
  "trim (draft_rag r) = [] \<or> loading_rag r \<Longrightarrow> send_rag uid r = (r, None)"
  by (auto simp: send_rag_def Let_def)

lemma trim_hello: "trim ''hello'' = ''hello''"
  by (simp add: trim_def is_ws_def)

lemma filter_head: "filter P xs = y # ys \<Longrightarrow> P y"
proof -
  assume "filter P xs = y # ys"
  then have "y \<in> set (filter P xs)" by simp
  then show "P y" by simp
qed

lemma loadModels_fulfilled_array:
  "js_nc (js_nc (opt_get (opt_get data ''data'') ''models'') (opt_get data ''models''))
     (JArr []) = JArr ms \<Longrightarrow>
   loadModels_fulfilled True c data s =
     (case filter truthy (map (\<lambda>m. opt_get m ''name'') ms) of
        [] \<Rightarrow> s\<lparr>availableModels := []\<rparr>
      | first # rest \<Rightarrow>
          if \<not> truthy (model c) then s\<lparr>availableModels := first # rest, model := first\<rparr>
          else s\<lparr>availableModels := first # rest\<rparr>)"
  by (simp add: loadModels_fulfilled_def Let_def split: list.splits)

lemma models_response_array:
  "js_nc (js_nc (opt_get (opt_get models_response ''data'') ''models'')
       (opt_get models_response ''models'')) (JArr []) =
     JArr [JObj [(''name'', JStr ''llama3'')], JObj [(''size'', JNum (Finite 7))],
           JObj [(''name'', JStr [])], JObj [(''name'', JStr ''mistral'')]]"
  by (simp add: models_response_def js_nc_def)

section \<open>The outgoing request\<close>

text \<open>
  C1. For every accepted submission of the chat component (trimmed draft not empty, no
  request pending) the body of the request has as \<open>messages\<close> the trimmed system
  instruction, when it is not empty, followed by the whole prior transcript in order and
  by the new user message. The document component sends the body
  \<open>{ question: text }\<close> and nothing else: neither an instruction nor the transcript.
\<close>

theorem send_request_body:
  "(trim (draft s) \<noteq> [] \<and> \<not> loading s \<longrightarrow>
      snd (send uid s) =
        Some (Post endpoint_chat
          (Json (JObj
            [(''model'', js_or (model s) JUndefined),
             (''messages'', JArr (full_history (systemPrompt s) (messages s) (trim (draft s)))),
             (''options'', JObj [])]))
          [])
      \<and> carries_history (snd (send uid s))
            (full_history (systemPrompt s) (messages s) (trim (draft s))))
   \<and> (trim (draft_rag r) \<noteq> [] \<and> \<not> loading_rag r \<longrightarrow>
        snd (send_rag uid r) =
          Some (Post endpoint_ragQuery (Json (JObj [(''question'', JStr (trim (draft_rag r)))])) []))"
  by (simp add: send_def send_rag_def Let_def requestMessages_eq full_history_def carries_history_def)

theorem send_request_body_witness:
  "snd (send ''u3''
     (LLMChat_init\<lparr>messages :=
        [\<lparr>id_m = ''u1'', role = User, content = ''first''\<rparr>,
         \<lparr>id_m = ''u2'', role = Assistant, content = ''reply''\<rparr>],
        draft := ''hello''\<rparr>)) =
     Some (Post endpoint_chat
       (Json (JObj
         [(''model'', JUndefined),
          (''messages'', JArr
             [JObj [(''role'', JStr ''system''), (''content'', JStr ''You are a helpful assistant.'')],
              JObj [(''role'', JStr ''user''), (''content'', JStr ''first'')],
              JObj [(''role'', JStr ''assistant''), (''content'', JStr ''reply'')],
              JObj [(''role'', JStr ''user''), (''content'', JStr ''hello'')]]),
          (''options'', JObj [])]))
       [])
   \<and> snd (send_rag ''u3'' rag_second_turn) =
       Some (Post endpoint_ragQuery (Json (JObj [(''question'', JStr ''second'')])) [])"
proof -
  have t: "trim ''You are a helpful assistant.'' = ''You are a helpful assistant.''"
    by (simp add: trim_def is_ws_def)
  have u: "trim ''second'' = ''second''"
    by (simp add: trim_def is_ws_def)
  show ?thesis
    using send_request_body [of "LLMChat_init\<lparr>messages :=
        [\<lparr>id_m = ''u1'', role = User, content = ''first''\<rparr>,
         \<lparr>id_m = ''u2'', role = Assistant, content = ''reply''\<rparr>],
        draft := ''hello''\<rparr>" "''u3''" rag_second_turn]
    by (simp add: LLMChat_init_def trim_hello t u full_history_def role_content_def js_or_def
          rag_second_turn_def MultimodalRAG_init_def)
qed

text \<open>
  After one exchange, the request of the document component for the second question
  carries the question only; the two messages of the transcript are not in it.
\<close>

theorem rag_request_without_history:
  "trim (draft_rag rag_second_turn) = ''second''
   \<and> \<not> loading_rag rag_second_turn
   \<and> snd (send_rag ''m3'' rag_second_turn) =
       Some (Post endpoint_ragQuery (Json (JObj [(''question'', JStr ''second'')])) [])
   \<and> \<not> carries_history (snd (send_rag ''m3'' rag_second_turn))
         (full_history_rag (messages_rag rag_second_turn) ''second'')"
  by (simp add: rag_second_turn_def MultimodalRAG_init_def send_rag_def trim_def is_ws_def
        Let_def carries_history_def full_history_rag_def)

section \<open>Failure of a submission\<close>

text \<open>
  C2. When the request of an accepted submission fails with the payload \<open>e\<close>, the stored
  error is the first available of: \<open>e\<close> itself when it is a string, \<open>e.error\<close>,
  \<open>e.details.error\<close>, \<open>e.details.detail\<close>, \<open>e.message\<close>, and else the text
  \<open>Failed to send message\<close>; the pending flag is idle again; the transcript is the
  prior one followed by the user message, without an assistant message. The failure
  continuation never changes the transcript. This holds in both components.
\<close>

theorem failed_send_error_and_transcript:
  "(trim (draft s) \<noteq> [] \<and> \<not> loading s \<longrightarrow>
      error (send_rejected e (fst (send uid s))) =
        first_available
          [if is_string e then e else JUndefined,
           opt_get e ''error'',
           opt_get (opt_get e ''details'') ''error'',
           opt_get (opt_get e ''details'') ''detail'',
           opt_get e ''message'']
          (JStr ''Failed to send message'')
      \<and> loading (send_rejected e (fst (send uid s))) = False
      \<and> messages (send_rejected e (fst (send uid s))) =
          messages s @ [\<lparr>id_m = uid, role = User, content = trim (draft s)\<rparr>])
   \<and> (trim (draft_rag r) \<noteq> [] \<and> \<not> loading_rag r \<longrightarrow>
      error_rag (send_rejected_rag e (fst (send_rag uid r))) =
        first_available
          [if is_string e then e else JUndefined,
           opt_get e ''error'',
           opt_get (opt_get e ''details'') ''error'',
           opt_get (opt_get e ''details'') ''detail'',
           opt_get e ''message'']
          (JStr ''Failed to send message'')
      \<and> loading_rag (send_rejected_rag e (fst (send_rag uid r))) = False
      \<and> messages_rag (send_rejected_rag e (fst (send_rag uid r))) =
          messages_rag r @
            [\<lparr>id_rag = uid, role_rag = User, content_rag = JStr (trim (draft_rag r)),
              context_rag = None\<rparr>])
   \<and> messages (send_rejected e s) = messages s
   \<and> messages_rag (send_rejected_rag e r) = messages_rag r"
  by (simp add: send_accepted send_rag_accepted send_rejected_def send_rejected_rag_def
        errorMessage_first_available)

theorem failed_send_error_and_transcript_witness:
  "error (send_rejected (JObj [(''error'', JStr ''quota exceeded'')])
            (fst (send ''u1'' (LLMChat_init\<lparr>draft := ''hello''\<rparr>)))) = JStr ''quota exceeded''
   \<and> error (send_rejected (JStr ''bad request'')
            (fst (send ''u1'' (LLMChat_init\<lparr>draft := ''hello''\<rparr>)))) = JStr ''bad request''
   \<and> messages (send_rejected (JStr ''bad request'')
            (fst (send ''u1'' (LLMChat_init\<lparr>draft := ''hello''\<rparr>)))) =
       [\<lparr>id_m = ''u1'', role = User, content = ''hello''\<rparr>]
   \<and> error_rag (send_rejected_rag (JObj [(''details'', JObj [(''detail'', JStr ''no index'')])])
            (fst (send_rag ''u1'' (MultimodalRAG_init\<lparr>draft_rag := ''hello''\<rparr>)))) = JStr ''no index''"
proof -
  have h: "trim (draft (LLMChat_init\<lparr>draft := ''hello''\<rparr>)) \<noteq> []
           \<and> \<not> loading (LLMChat_init\<lparr>draft := ''hello''\<rparr>)"
    by (simp add: trim_hello LLMChat_init_def)
  have k: "trim (draft_rag (MultimodalRAG_init\<lparr>draft_rag := ''hello''\<rparr>)) \<noteq> []
           \<and> \<not> loading_rag (MultimodalRAG_init\<lparr>draft_rag := ''hello''\<rparr>)"
    by (simp add: trim_hello MultimodalRAG_init_def)
  show ?thesis
    using h k
      failed_send_error_and_transcript [of "LLMChat_init\<lparr>draft := ''hello''\<rparr>"
        "JObj [(''error'', JStr ''quota exceeded'')]" "''u1''" "MultimodalRAG_init"]
      failed_send_error_and_transcript [of "LLMChat_init\<lparr>draft := ''hello''\<rparr>"
        "JStr ''bad request''" "''u1''" "MultimodalRAG_init"]
      failed_send_error_and_transcript [of "LLMChat_init"
        "JObj [(''details'', JObj [(''detail'', JStr ''no index'')])]" "''u1''"
        "MultimodalRAG_init\<lparr>draft_rag := ''hello''\<rparr>"]
    by (simp add: trim_hello LLMChat_init_def MultimodalRAG_init_def)
qed

section \<open>The guard of a submission\<close>

text \<open>
  C3. \<open>send\<close> does nothing when the trimmed draft is empty or a request is pending:
  the state (transcript, pending flag, draft, stored error) is unchanged and no request is
  issued. So a second submission, with any draft \<open>d\<close>, made while the first is pending
  is dropped, and the two submissions make exactly one network call.
\<close>

theorem send_guard_is_noop:
  "(trim (draft s) = [] \<or> loading s \<longrightarrow> send uid s = (s, None))
   \<and> (trim (draft_rag r) = [] \<or> loading_rag r \<longrightarrow> send_rag uid r = (r, None))
   \<and> (trim (draft s) \<noteq> [] \<and> \<not> loading s \<longrightarrow>
        send uid' ((fst (send uid s))\<lparr>draft := d\<rparr>) = ((fst (send uid s))\<lparr>draft := d\<rparr>, None)
        \<and> length (network_calls
             [snd (send uid s), snd (send uid' ((fst (send uid s))\<lparr>draft := d\<rparr>))]) = 1)
   \<and> (trim (draft_rag r) \<noteq> [] \<and> \<not> loading_rag r \<longrightarrow>
        send_rag uid' ((fst (send_rag uid r))\<lparr>draft_rag := d\<rparr>) =
          ((fst (send_rag uid r))\<lparr>draft_rag := d\<rparr>, None)
        \<and> length (network_calls
             [snd (send_rag uid r),
              snd (send_rag uid' ((fst (send_rag uid r))\<lparr>draft_rag := d\<rparr>))]) = 1)"
proof -
  have a: "trim (draft s) = [] \<or> loading s \<longrightarrow> send uid s = (s, None)"
    by (simp add: send_refused)
  have b: "trim (draft_rag r) = [] \<or> loading_rag r \<longrightarrow> send_rag uid r = (r, None)"
    by (simp add: send_rag_refused)
  have c: "trim (draft s) \<noteq> [] \<and> \<not> loading s \<longrightarrow>
        send uid' ((fst (send uid s))\<lparr>draft := d\<rparr>) = ((fst (send uid s))\<lparr>draft := d\<rparr>, None)
        \<and> length (network_calls
             [snd (send uid s), snd (send uid' ((fst (send uid s))\<lparr>draft := d\<rparr>))]) = 1"
    by (simp add: send_accepted send_refused)
  have d: "trim (draft_rag r) \<noteq> [] \<and> \<not> loading_rag r \<longrightarrow>
        send_rag uid' ((fst (send_rag uid r))\<lparr>draft_rag := d\<rparr>) =
          ((fst (send_rag uid r))\<lparr>draft_rag := d\<rparr>, None)
        \<and> length (network_calls
             [snd (send_rag uid r),
              snd (send_rag uid' ((fst (send_rag uid r))\<lparr>draft_rag := d\<rparr>))]) = 1"
    by (simp add: send_rag_accepted send_rag_refused)
  from a b c d show ?thesis by blast
qed

theorem send_guard_is_noop_witness:
  "send ''u1'' (LLMChat_init\<lparr>draft := ''   ''\<rparr>) = (LLMChat_init\<lparr>draft := ''   ''\<rparr>, None)
   \<and> send ''u2'' ((fst (send ''u1'' (LLMChat_init\<lparr>draft := ''hello''\<rparr>)))\<lparr>draft := ''world''\<rparr>) =
       ((fst (send ''u1'' (LLMChat_init\<lparr>draft := ''hello''\<rparr>)))\<lparr>draft := ''world''\<rparr>, None)
   \<and> length (network_calls
        [snd (send ''u1'' (LLMChat_init\<lparr>draft := ''hello''\<rparr>)),
         snd (send ''u2''
           ((fst (send ''u1'' (LLMChat_init\<lparr>draft := ''hello''\<rparr>)))\<lparr>draft := ''world''\<rparr>))]) = 1
   \<and> send_rag ''u2''
        ((fst (send_rag ''u1'' (MultimodalRAG_init\<lparr>draft_rag := ''hello''\<rparr>)))\<lparr>draft_rag := ''world''\<rparr>) =
       ((fst (send_rag ''u1'' (MultimodalRAG_init\<lparr>draft_rag := ''hello''\<rparr>)))\<lparr>draft_rag := ''world''\<rparr>,
        None)"
proof -
  have e: "trim (draft (LLMChat_init\<lparr>draft := ''   ''\<rparr>)) = []"
    by (simp add: trim_def is_ws_def)
  have h: "trim (draft (LLMChat_init\<lparr>draft := ''hello''\<rparr>)) \<noteq> []
           \<and> \<not> loading (LLMChat_init\<lparr>draft := ''hello''\<rparr>)"
    by (simp add: trim_hello LLMChat_init_def)
  have k: "trim (draft_rag (MultimodalRAG_init\<lparr>draft_rag := ''hello''\<rparr>)) \<noteq> []
           \<and> \<not> loading_rag (MultimodalRAG_init\<lparr>draft_rag := ''hello''\<rparr>)"
    by (simp add: trim_hello MultimodalRAG_init_def)
  show ?thesis
    using e h k
      send_guard_is_noop [of "LLMChat_init\<lparr>draft := ''   ''\<rparr>" "''u1''" MultimodalRAG_init "''u2''" "''world''"]
      send_guard_is_noop [of "LLMChat_init\<lparr>draft := ''hello''\<rparr>" "''u1''"
        "MultimodalRAG_init\<lparr>draft_rag := ''hello''\<rparr>" "''u2''" "''world''"]
    by blast
qed

section \<open>Clearing\<close>

text \<open>
  C4. From any state, \<open>clearChat\<close> gives an empty transcript and an empty stored error,
  and leaves the pending flags as they are; it issues nothing, so it cancels nothing.
\<close>

theorem clearChat_empties_transcript_and_error:
  "messages (clearChat s) = [] \<and> error (clearChat s) = JStr []
   \<and> loading (clearChat s) = loading s
   \<and> messages_rag (clearChat_rag r) = [] \<and> error_rag (clearChat_rag r) = JStr []
   \<and> loading_rag (clearChat_rag r) = loading_rag r
   \<and> uploading (clearChat_rag r) = uploading r
   \<and> handler_rag uid Clear_click r = (clearChat_rag r, None)"
  by (simp add: clearChat_def clearChat_rag_def)

text \<open>
  C8. \<open>clearChat\<close> changes the transcript and the stored error only. So when it runs
  while a request is pending, the flag stays pending and the later successful response is
  appended to the emptied transcript: the transcript is then one assistant message, with
  no user message before it. In the chat component the response is successful when the
  conversion of its content to a string raises no error.
\<close>

theorem clearChat_frame_then_late_response:
  "loading (clearChat s) = loading s \<and> draft (clearChat s) = draft s
   \<and> model (clearChat s) = model s \<and> systemPrompt (clearChat s) = systemPrompt s
   \<and> availableModels (clearChat s) = availableModels s
   \<and> clearChat s = s\<lparr>messages := [], error := JStr []\<rparr>
   \<and> loading_rag (clearChat_rag r) = loading_rag r \<and> uploading (clearChat_rag r) = uploading r
   \<and> draft_rag (clearChat_rag r) = draft_rag r
   \<and> clearChat_rag r = r\<lparr>messages_rag := [], error_rag := JStr []\<rparr>
   \<and> (trim (draft s) \<noteq> [] \<and> \<not> loading s
       \<and> js_toString rt (js_nc (opt_get (opt_get res ''data'') ''content'') (JStr [])) = Some c \<longrightarrow>
        loading (clearChat (fst (send uid s)))
        \<and> messages (send_fulfilled rt aid res (clearChat (fst (send uid s)))) =
            [\<lparr>id_m = aid, role = Assistant,
              content = (if c \<noteq> [] then c else ''(empty response)'')\<rparr>])
   \<and> (trim (draft_rag r) \<noteq> [] \<and> \<not> loading_rag r \<longrightarrow>
        loading_rag (clearChat_rag (fst (send_rag uid r)))
        \<and> messages_rag (send_fulfilled_rag aid res (clearChat_rag (fst (send_rag uid r)))) =
            [\<lparr>id_rag = aid, role_rag = Assistant,
              content_rag = js_or (opt_get (opt_get res ''data'') ''answer'') (JStr ''(empty response)''),
              context_rag = Some (js_or (opt_get (opt_get res ''data'') ''context'') (JObj []))\<rparr>])"
  by (simp add: clearChat_def clearChat_rag_def send_accepted send_rag_accepted
        send_fulfilled_def send_fulfilled_rag_def Let_def)

theorem clearChat_frame_then_late_response_witness:
  "messages (send_fulfilled example_runtime ''a1'' (JObj [(''data'', JObj [(''content'', JStr ''hi there'')])])
     (clearChat (fst (send ''u1'' (LLMChat_init\<lparr>draft := ''hello''\<rparr>))))) =
     [\<lparr>id_m = ''a1'', role = Assistant, content = ''hi there''\<rparr>]
   \<and> messages_rag (send_fulfilled_rag ''a1'' (JObj [(''data'', JObj [(''answer'', JStr ''hi there'')])])
     (clearChat_rag (fst (send_rag ''u1'' (MultimodalRAG_init\<lparr>draft_rag := ''hello''\<rparr>))))) =
     [\<lparr>id_rag = ''a1'', role_rag = Assistant, content_rag = JStr ''hi there'',
       context_rag = Some (JObj [])\<rparr>]"
proof -
  have h: "trim (draft (LLMChat_init\<lparr>draft := ''hello''\<rparr>)) \<noteq> []
           \<and> \<not> loading (LLMChat_init\<lparr>draft := ''hello''\<rparr>)
           \<and> js_toString example_runtime (js_nc (opt_get (opt_get
                 (JObj [(''data'', JObj [(''content'', JStr ''hi there'')])]) ''data'') ''content'')
                 (JStr [])) = Some ''hi there''"
    by (simp add: trim_hello LLMChat_init_def js_nc_def)
  have k: "trim (draft_rag (MultimodalRAG_init\<lparr>draft_rag := ''hello''\<rparr>)) \<noteq> []
           \<and> \<not> loading_rag (MultimodalRAG_init\<lparr>draft_rag := ''hello''\<rparr>)"
    by (simp add: trim_hello MultimodalRAG_init_def)
  show ?thesis
    using h k
      clearChat_frame_then_late_response [of "LLMChat_init\<lparr>draft := ''hello''\<rparr>"
        "MultimodalRAG_init\<lparr>draft_rag := ''hello''\<rparr>" example_runtime
        "JObj [(''data'', JObj [(''content'', JStr ''hi there'')])]" "''hi there''" "''u1''" "''a1''"]
      clearChat_frame_then_late_response [of "LLMChat_init\<lparr>draft := ''hello''\<rparr>"
        "MultimodalRAG_init\<lparr>draft_rag := ''hello''\<rparr>" example_runtime
        "JObj [(''data'', JObj [(''answer'', JStr ''hi there'')])]" "''hi there''" "''u1''" "''a1''"]
    by (simp add: js_or_def)
qed

section \<open>The content of the assistant message\<close>

text \<open>
  C5. When the \<open>content\<close> of a successful chat response is the empty string or absent,
  the appended assistant message has the content \<open>(empty response)\<close>; when it is a
  non-empty string, the appended content is that string; the appended content is never
  empty. The same holds for the \<open>answer\<close> of the document component.
\<close>

theorem empty_response_placeholder:
  "(opt_get (opt_get res ''data'') ''content'' = JStr [] \<or>
    opt_get (opt_get res ''data'') ''content'' = JUndefined \<or>
    opt_get (opt_get res ''data'') ''content'' = JNull \<longrightarrow>
      send_fulfilled rt aid res s =
        s\<lparr>messages := messages s @
             [\<lparr>id_m = aid, role = Assistant, content = ''(empty response)''\<rparr>],
          loading := False\<rparr>)
   \<and> (opt_get (opt_get res ''data'') ''content'' = JStr c \<and> c \<noteq> [] \<longrightarrow>
      send_fulfilled rt aid res s =
        s\<lparr>messages := messages s @ [\<lparr>id_m = aid, role = Assistant, content = c\<rparr>],
          loading := False\<rparr>)
   \<and> (js_toString rt (js_nc (opt_get (opt_get res ''data'') ''content'') (JStr [])) \<noteq> None \<longrightarrow>
      content (last (messages (send_fulfilled rt aid res s))) \<noteq> [])
   \<and> (opt_get (opt_get res ''data'') ''answer'' = JStr [] \<or>
      opt_get (opt_get res ''data'') ''answer'' = JUndefined \<longrightarrow>
      content_rag (last (messages_rag (send_fulfilled_rag aid res r))) = JStr ''(empty response)'')
   \<and> (opt_get (opt_get res ''data'') ''answer'' = JStr c \<and> c \<noteq> [] \<longrightarrow>
      content_rag (last (messages_rag (send_fulfilled_rag aid res r))) = JStr c)
   \<and> content_rag (last (messages_rag (send_fulfilled_rag aid res r))) \<noteq> JStr []"
  by (auto simp: send_fulfilled_def send_fulfilled_rag_def js_nc_def js_or_def Let_def
        split: if_splits)

theorem empty_response_placeholder_witness:
  "send_fulfilled example_runtime ''a1'' (JObj [(''data'', JObj [(''content'', JStr [])])])
     LLMChat_init =
     LLMChat_init
       \<lparr>messages := [\<lparr>id_m = ''a1'', role = Assistant, content = ''(empty response)''\<rparr>],
        loading := False\<rparr>
   \<and> send_fulfilled example_runtime ''a1'' (JObj [(''data'', JObj [])]) LLMChat_init =
     LLMChat_init
       \<lparr>messages := [\<lparr>id_m = ''a1'', role = Assistant, content = ''(empty response)''\<rparr>],
        loading := False\<rparr>
   \<and> send_fulfilled example_runtime ''a1'' (JObj [(''data'', JObj [(''content'', JStr ''hi'')])])
     LLMChat_init =
     LLMChat_init
       \<lparr>messages := [\<lparr>id_m = ''a1'', role = Assistant, content = ''hi''\<rparr>],
        loading := False\<rparr>
   \<and> content_rag (last (messages_rag (send_fulfilled_rag ''a1''
         (JObj [(''data'', JObj [(''answer'', JStr [])])]) MultimodalRAG_init))) =
       JStr ''(empty response)''"
  using
    empty_response_placeholder [of "JObj [(''data'', JObj [(''content'', JStr [])])]"
      example_runtime "''a1''" LLMChat_init "''hi''" MultimodalRAG_init]
    empty_response_placeholder [of "JObj [(''data'', JObj [])]"
      example_runtime "''a1''" LLMChat_init "''hi''" MultimodalRAG_init]
    empty_response_placeholder [of "JObj [(''data'', JObj [(''content'', JStr ''hi'')])]"
      example_runtime "''a1''" LLMChat_init "''hi''" MultimodalRAG_init]
    empty_response_placeholder [of "JObj [(''data'', JObj [(''answer'', JStr [])])]"
      example_runtime "''a1''" LLMChat_init "''hi''" MultimodalRAG_init]
  by (simp add: LLMChat_init_def)

section \<open>The upload of a document\<close>

text \<open>
  C6. Of the chosen files the first is taken. If its name does not end in \<open>.pdf\<close>
  without regard to case, the handler stores the message \<open>Please upload a PDF file\<close>,
  issues no request and leaves the uploading flag as it is. If it does, the handler issues
  exactly one request, to the processing endpoint, whose form data hold that file alone.
\<close>

theorem handleFileUpload_pdf_only:
  "(\<not> pdf_suffix (name file) \<longrightarrow>
      handleFileUpload (Some (file # others)) r =
        (r\<lparr>error_rag := JStr ''Please upload a PDF file''\<rparr>, None)
      \<and> network_calls [snd (handleFileUpload (Some (file # others)) r)] = []
      \<and> uploading (fst (handleFileUpload (Some (file # others)) r)) = uploading r)
   \<and> (pdf_suffix (name file) \<longrightarrow>
      handleFileUpload (Some (file # others)) r =
        (r\<lparr>error_rag := JStr [], uploadSuccess := [], uploading := True\<rparr>,
         Some (Post endpoint_ragProcess (FormData [(''file'', file)])
                 [(''Content-Type'', ''multipart/form-data'')]))
      \<and> network_calls [snd (handleFileUpload (Some (file # others)) r)] =
          [Post endpoint_ragProcess (FormData [(''file'', file)])
             [(''Content-Type'', ''multipart/form-data'')]])"
  by (simp add: handleFileUpload_def endsWith_pdf)

theorem handleFileUpload_pdf_only_witness:
  "pdf_suffix ''Report.PDF''
   \<and> \<not> pdf_suffix ''report.txt''
   \<and> handleFileUpload (Some [\<lparr>name = ''Report.PDF'', bytes = []\<rparr>]) MultimodalRAG_init =
       (MultimodalRAG_init\<lparr>error_rag := JStr [], uploadSuccess := [], uploading := True\<rparr>,
        Some (Post endpoint_ragProcess (FormData [(''file'', \<lparr>name = ''Report.PDF'', bytes = []\<rparr>)])
                [(''Content-Type'', ''multipart/form-data'')]))
   \<and> handleFileUpload (Some [\<lparr>name = ''report.txt'', bytes = []\<rparr>]) MultimodalRAG_init =
       (MultimodalRAG_init\<lparr>error_rag := JStr ''Please upload a PDF file''\<rparr>, None)"
proof -
  have a: "pdf_suffix (name \<lparr>name = ''Report.PDF'', bytes = []\<rparr>)"
    by (simp add: pdf_suffix_def)
  have b: "\<not> pdf_suffix (name \<lparr>name = ''report.txt'', bytes = []\<rparr>)"
    by (simp add: pdf_suffix_def)
  show ?thesis
    using a b
      handleFileUpload_pdf_only [of "\<lparr>name = ''Report.PDF'', bytes = []\<rparr>" "[]" MultimodalRAG_init]
      handleFileUpload_pdf_only [of "\<lparr>name = ''report.txt'', bytes = []\<rparr>" "[]" MultimodalRAG_init]
    by simp
qed

text \<open>
  C7. The two handlers of the document component use two flags: \<open>send\<close> tests and sets
  the chat flag only, so a call of it with an upload in flight, no chat request pending
  and a non-empty trimmed draft is accepted and issues the query; \<open>handleFileUpload\<close>
  never changes the chat flag. But the controls are gated by the upload: while it is in
  flight the Send button and the draft text area are disabled and deliver no event, so the
  user can make no submission; with both flags idle they call \<open>send\<close>.

  The independence of the flags holds for the whole of each handler: either completion of
  \<open>send\<close> resets the chat flag and leaves the upload flag as it is, either completion of
  \<open>handleFileUpload\<close> resets the upload flag and leaves the chat flag as it is, and
  the run of each handler up to its request does not depend on the flag of the other.
\<close>

theorem upload_flag_and_send:
  "(uploading r \<and> \<not> loading_rag r \<and> trim (draft_rag r) \<noteq> [] \<longrightarrow>
      snd (send_rag uid r) =
        Some (Post endpoint_ragQuery (Json (JObj [(''question'', JStr (trim (draft_rag r)))])) [])
      \<and> loading_rag (fst (send_rag uid r)))
   \<and> uploading (fst (send_rag uid r)) = uploading r
   \<and> loading_rag (fst (handleFileUpload files r)) = loading_rag r
   \<and> (uploading r \<longrightarrow>
        dispatch_rag uid Send_click r = (r, None)
        \<and> dispatch_rag uid Draft_enter r = (r, None)
        \<and> dispatch_rag uid (Draft_change v) r = (r, None))
   \<and> (\<not> uploading r \<and> \<not> loading_rag r \<longrightarrow>
        dispatch_rag uid Send_click r = send_rag uid r
        \<and> dispatch_rag uid Draft_enter r = send_rag uid r)
   \<and> uploading (send_rejected_rag e r) = uploading r
   \<and> loading_rag (send_rejected_rag e r) = False
   \<and> uploading (send_fulfilled_rag aid res r) = uploading r
   \<and> loading_rag (send_fulfilled_rag aid res r) = False
   \<and> loading_rag (handleFileUpload_rejected e r) = loading_rag r
   \<and> uploading (handleFileUpload_rejected e r) = False
   \<and> loading_rag (handleFileUpload_fulfilled rt file res r) = loading_rag r
   \<and> uploading (handleFileUpload_fulfilled rt file res r) = False
   \<and> send_rag uid (r\<lparr>uploading := b\<rparr>) =
       ((fst (send_rag uid r))\<lparr>uploading := b\<rparr>, snd (send_rag uid r))
   \<and> handleFileUpload files (r\<lparr>loading_rag := b\<rparr>) =
       ((fst (handleFileUpload files r))\<lparr>loading_rag := b\<rparr>, snd (handleFileUpload files r))"
proof -
  have a: "uploading (fst (send_rag uid r)) = uploading r"
    by (simp add: send_rag_def Let_def)
  have b: "loading_rag (fst (handleFileUpload files r)) = loading_rag r"
    by (simp add: handleFileUpload_def split: option.splits list.splits)
  have c: "uploading (send_rejected_rag e r) = uploading r
      \<and> loading_rag (send_rejected_rag e r) = False"
    by (simp add: send_rejected_rag_def)
  have d: "uploading (send_fulfilled_rag aid res r) = uploading r
      \<and> loading_rag (send_fulfilled_rag aid res r) = False"
    by (simp add: send_fulfilled_rag_def Let_def)
  have f: "loading_rag (handleFileUpload_rejected e' r) = loading_rag r
      \<and> uploading (handleFileUpload_rejected e' r) = False" for e'
    by (simp add: handleFileUpload_rejected_def)
  have g: "loading_rag (handleFileUpload_fulfilled rt file res r) = loading_rag r
      \<and> uploading (handleFileUpload_fulfilled rt file res r) = False"
    by (simp add: handleFileUpload_fulfilled_def Let_def f split: option.splits)
  have h: "send_rag uid (r\<lparr>uploading := b\<rparr>) =
       ((fst (send_rag uid r))\<lparr>uploading := b\<rparr>, snd (send_rag uid r))"
    by (simp add: send_rag_def Let_def)
  have i: "handleFileUpload files (r\<lparr>loading_rag := b\<rparr>) =
       ((fst (handleFileUpload files r))\<lparr>loading_rag := b\<rparr>, snd (handleFileUpload files r))"
    by (simp add: handleFileUpload_def split: option.splits list.splits)
  have j: "(uploading r \<and> \<not> loading_rag r \<and> trim (draft_rag r) \<noteq> [] \<longrightarrow>
      snd (send_rag uid r) =
        Some (Post endpoint_ragQuery (Json (JObj [(''question'', JStr (trim (draft_rag r)))])) [])
      \<and> loading_rag (fst (send_rag uid r)))
   \<and> (uploading r \<longrightarrow>
        dispatch_rag uid Send_click r = (r, None)
        \<and> dispatch_rag uid Draft_enter r = (r, None)
        \<and> dispatch_rag uid (Draft_change v) r = (r, None))
   \<and> (\<not> uploading r \<and> \<not> loading_rag r \<longrightarrow>
        dispatch_rag uid Send_click r = send_rag uid r
        \<and> dispatch_rag uid Draft_enter r = send_rag uid r)"
    by (simp add: send_rag_accepted dispatch_rag_def LoadingButton_disabled_def)
  from a b c d f [of e] g h i j show ?thesis by simp
qed

theorem upload_flag_and_send_witness:
  "snd (send_rag ''u2'' rag_upload_in_flight) =
     Some (Post endpoint_ragQuery (Json (JObj [(''question'', JStr ''hello'')])) [])
   \<and> dispatch_rag ''u2'' Send_click rag_upload_in_flight = (rag_upload_in_flight, None)
   \<and> dispatch_rag ''u2'' Send_click (MultimodalRAG_init\<lparr>draft_rag := ''hello''\<rparr>) =
       send_rag ''u2'' (MultimodalRAG_init\<lparr>draft_rag := ''hello''\<rparr>)
   \<and> uploading (send_rejected_rag (JStr ''bad request'') (fst (send_rag ''u2'' rag_upload_in_flight)))
   \<and> \<not> loading_rag (send_rejected_rag (JStr ''bad request'')
         (fst (send_rag ''u2'' rag_upload_in_flight)))"
proof -
  have st: "rag_upload_in_flight =
      MultimodalRAG_init\<lparr>draft_rag := ''hello'', error_rag := JStr [], uploadSuccess := [],
        uploading := True\<rparr>"
    by (simp add: rag_upload_in_flight_def dispatch_rag_def handleFileUpload_def report_pdf_def
          endsWith_pdf pdf_suffix_def MultimodalRAG_init_def)
  have h: "uploading rag_upload_in_flight \<and> \<not> loading_rag rag_upload_in_flight
           \<and> trim (draft_rag rag_upload_in_flight) \<noteq> []"
    by (simp add: st trim_hello MultimodalRAG_init_def)
  have k: "\<not> uploading (MultimodalRAG_init\<lparr>draft_rag := ''hello''\<rparr>)
           \<and> \<not> loading_rag (MultimodalRAG_init\<lparr>draft_rag := ''hello''\<rparr>)"
    by (simp add: MultimodalRAG_init_def)
  have first: "snd (send_rag ''u2'' rag_upload_in_flight) =
     Some (Post endpoint_ragQuery (Json (JObj [(''question'', JStr ''hello'')])) [])
   \<and> dispatch_rag ''u2'' Send_click rag_upload_in_flight = (rag_upload_in_flight, None)
   \<and> uploading (fst (send_rag ''u2'' rag_upload_in_flight))"
    using h upload_flag_and_send [of rag_upload_in_flight "''u2''" None "[]"
        "JStr ''bad request''" "''a1''" "JObj []" example_runtime report_pdf True]
    by (simp add: st trim_hello)
  have second: "dispatch_rag ''u2'' Send_click (MultimodalRAG_init\<lparr>draft_rag := ''hello''\<rparr>) =
       send_rag ''u2'' (MultimodalRAG_init\<lparr>draft_rag := ''hello''\<rparr>)"
    using k upload_flag_and_send [of "MultimodalRAG_init\<lparr>draft_rag := ''hello''\<rparr>" "''u2''"
        None "[]" "JStr ''bad request''" "''a1''" "JObj []" example_runtime report_pdf True]
    by simp
  have third: "uploading (send_rejected_rag (JStr ''bad request'')
         (fst (send_rag ''u2'' rag_upload_in_flight))) =
       uploading (fst (send_rag ''u2'' rag_upload_in_flight))
     \<and> \<not> loading_rag (send_rejected_rag (JStr ''bad request'')
         (fst (send_rag ''u2'' rag_upload_in_flight)))"
    using upload_flag_and_send [of "fst (send_rag ''u2'' rag_upload_in_flight)" "''u2''" None "[]"
        "JStr ''bad request''" "''a1''" "JObj []" example_runtime report_pdf True]
    by simp
  from first second third show ?thesis by simp
qed

text \<open>
  With a question typed and an upload in flight, a click on Send and the Enter key in the
  text area change nothing and issue no request.
\<close>

theorem send_controls_disabled_while_uploading:
  "uploading rag_upload_in_flight
   \<and> \<not> loading_rag rag_upload_in_flight
   \<and> trim (draft_rag rag_upload_in_flight) = ''hello''
   \<and> dispatch_rag ''u2'' Send_click rag_upload_in_flight = (rag_upload_in_flight, None)
   \<and> dispatch_rag ''u2'' Draft_enter rag_upload_in_flight = (rag_upload_in_flight, None)"
  by (simp add: rag_upload_in_flight_def dispatch_rag_def MultimodalRAG_init_def
        handleFileUpload_def report_pdf_def endsWith_pdf pdf_suffix_def trim_def is_ws_def
        LoadingButton_disabled_def)

section \<open>The substitute of the interceptor\<close>

text \<open>
  C9. For a failure with no response, or with a response whose data are falsy (the empty
  string for one), the interceptor passes \<open>Something went wrong\<close> to the component,
  and the component stores exactly that string. Whatever the payload of a failure, the
  stored error is truthy, hence never the empty string.
\<close>

theorem interceptor_substitute_is_stored:
  "(\<not> truthy (response err) \<or> \<not> truthy (opt_get (response err) ''data'') \<longrightarrow>
      interceptor_rejected err = JStr ''Something went wrong''
      \<and> error (send_rejected (interceptor_rejected err) s) = JStr ''Something went wrong'')
   \<and> truthy (interceptor_rejected err)
   \<and> truthy (error (send_rejected e s))
   \<and> error (send_rejected e s) \<noteq> JStr []"
proof -
  have a: "\<not> truthy (response err) \<or> \<not> truthy (opt_get (response err) ''data'') \<Longrightarrow>
      interceptor_rejected err = JStr ''Something went wrong''"
    by (auto simp: interceptor_rejected_def js_or_def js_and_def)
  have b: "errorMessage (JStr ''Something went wrong'') = JStr ''Something went wrong''"
    by (simp add: errorMessage_def js_or_def js_and_def)
  have c: "truthy (interceptor_rejected err)"
    by (simp add: interceptor_rejected_def js_or_def)
  have d: "truthy (error (send_rejected e s))"
    by (simp add: send_rejected_def truthy_errorMessage)
  then have "error (send_rejected e s) \<noteq> JStr []" by auto
  with a b c d show ?thesis by (auto simp: send_rejected_def)
qed

theorem interceptor_substitute_is_stored_witness:
  "interceptor_rejected \<lparr>response = JObj [(''status'', JNum (Finite 500)), (''data'', JStr [])]\<rparr> =
     JStr ''Something went wrong''
   \<and> interceptor_rejected \<lparr>response = JUndefined\<rparr> = JStr ''Something went wrong''
   \<and> error (send_rejected
       (interceptor_rejected \<lparr>response = JObj [(''status'', JNum (Finite 500)), (''data'', JStr [])]\<rparr>)
       LLMChat_init) = JStr ''Something went wrong''"
proof -
  have h: "\<not> truthy (opt_get (response
      \<lparr>response = JObj [(''status'', JNum (Finite 500)), (''data'', JStr [])]\<rparr>) ''data'')"
    by simp
  have k: "\<not> truthy (response \<lparr>response = JUndefined\<rparr>)" by simp
  show ?thesis
    using h k
      interceptor_substitute_is_stored [of "\<lparr>response = JObj [(''status'', JNum (Finite 500)), (''data'', JStr [])]\<rparr>"
        LLMChat_init JNull]
      interceptor_substitute_is_stored [of "\<lparr>response = JUndefined\<rparr>" LLMChat_init JNull]
    by blast
qed

section \<open>Discovery of the models\<close>

text \<open>
  C10. When the fetch of the models succeeds with a list of descriptors (and the component
  is still mounted), the available models are the truthy names of the descriptors, in
  order. If that list is not empty and the render that started the fetch had no model
  selected, its first name becomes the selected model, and the request of a later accepted
  submission carries it as \<open>model\<close>; otherwise the selection is unchanged. With no
  model selected the request has an undefined \<open>model\<close>, which leaves the choice to the
  server.
\<close>

theorem loadModels_selects_first_name:
  "js_nc (js_nc (opt_get (opt_get data ''data'') ''models'') (opt_get data ''models''))
     (JArr []) = JArr ms \<longrightarrow>
     availableModels (loadModels_fulfilled True c data s) =
       filter truthy (map (\<lambda>m. opt_get m ''name'') ms)
     \<and> (\<forall>n \<in> set (availableModels (loadModels_fulfilled True c data s)). truthy n)
     \<and> (\<not> truthy (model c) \<and> filter truthy (map (\<lambda>m. opt_get m ''name'') ms) = first # rest \<longrightarrow>
          model (loadModels_fulfilled True c data s) = first
          \<and> (trim d \<noteq> [] \<and> \<not> loading s \<longrightarrow>
               snd (send uid ((loadModels_fulfilled True c data s)\<lparr>draft := d\<rparr>)) =
                 Some (Post endpoint_chat
                   (Json (JObj
                     [(''model'', first),
                      (''messages'', JArr (full_history (systemPrompt s) (messages s) (trim d))),
                      (''options'', JObj [])]))
                   [])))
     \<and> (truthy (model c) \<or> filter truthy (map (\<lambda>m. opt_get m ''name'') ms) = [] \<longrightarrow>
          model (loadModels_fulfilled True c data s) = model s)
     \<and> (\<not> truthy (model s) \<and> trim d \<noteq> [] \<and> \<not> loading s \<longrightarrow>
          snd (send uid (s\<lparr>draft := d\<rparr>)) =
            Some (Post endpoint_chat
              (Json (JObj
                [(''model'', JUndefined),
                 (''messages'', JArr (full_history (systemPrompt s) (messages s) (trim d))),
                 (''options'', JObj [])]))
              []))"
proof
  assume arr: "js_nc (js_nc (opt_get (opt_get data ''data'') ''models'') (opt_get data ''models''))
     (JArr []) = JArr ms"
  let ?names = "filter truthy (map (\<lambda>m. opt_get m ''name'') ms)"
  let ?s' = "loadModels_fulfilled True c data s"
  note eq = loadModels_fulfilled_array [OF arr, of c s]
  have a: "availableModels ?s' = ?names"
    by (simp add: eq split: list.splits)
  have b: "\<forall>n \<in> set (availableModels ?s'). truthy n"
    by (simp add: a)
  have c1: "model ?s' = first" if "\<not> truthy (model c)" "?names = first # rest"
    using that by (simp add: eq)
  have c2: "snd (send uid (?s'\<lparr>draft := d\<rparr>)) =
                 Some (Post endpoint_chat
                   (Json (JObj
                     [(''model'', first),
                      (''messages'', JArr (full_history (systemPrompt s) (messages s) (trim d))),
                      (''options'', JObj [])]))
                   [])"
    if "\<not> truthy (model c)" "?names = first # rest" "trim d \<noteq> []" "\<not> loading s"
  proof -
    have "truthy first" using that(2) by (rule filter_head)
    then show ?thesis
      using that
      by (simp add: eq send_accepted requestMessages_eq full_history_def js_or_def)
  qed
  have d1: "model ?s' = model s" if "truthy (model c) \<or> ?names = []"
    using that by (auto simp: eq split: list.splits)
  have e1: "snd (send uid (s\<lparr>draft := d\<rparr>)) =
            Some (Post endpoint_chat
              (Json (JObj
                [(''model'', JUndefined),
                 (''messages'', JArr (full_history (systemPrompt s) (messages s) (trim d))),
                 (''options'', JObj [])]))
              [])"
    if "\<not> truthy (model s)" "trim d \<noteq> []" "\<not> loading s"
    using that by (simp add: send_accepted requestMessages_eq full_history_def js_or_def)
  from a b c1 c2 d1 e1
  show "availableModels ?s' = ?names
     \<and> (\<forall>n \<in> set (availableModels ?s'). truthy n)
     \<and> (\<not> truthy (model c) \<and> ?names = first # rest \<longrightarrow>
          model ?s' = first
          \<and> (trim d \<noteq> [] \<and> \<not> loading s \<longrightarrow>
               snd (send uid (?s'\<lparr>draft := d\<rparr>)) =
                 Some (Post endpoint_chat
                   (Json (JObj
                     [(''model'', first),
                      (''messages'', JArr (full_history (systemPrompt s) (messages s) (trim d))),
                      (''options'', JObj [])]))
                   [])))
     \<and> (truthy (model c) \<or> ?names = [] \<longrightarrow> model ?s' = model s)
     \<and> (\<not> truthy (model s) \<and> trim d \<noteq> [] \<and> \<not> loading s \<longrightarrow>
          snd (send uid (s\<lparr>draft := d\<rparr>)) =
            Some (Post endpoint_chat
              (Json (JObj
                [(''model'', JUndefined),
                 (''messages'', JArr (full_history (systemPrompt s) (messages s) (trim d))),
                 (''options'', JObj [])]))
              []))"
    by blast
qed

theorem loadModels_selects_first_name_witness:
  "availableModels (loadModels_fulfilled True LLMChat_init models_response LLMChat_init) =
     [JStr ''llama3'', JStr ''mistral'']
   \<and> model (loadModels_fulfilled True LLMChat_init models_response LLMChat_init) = JStr ''llama3''
   \<and> snd (send ''u1''
       ((loadModels_fulfilled True LLMChat_init models_response LLMChat_init)\<lparr>draft := ''hello''\<rparr>)) =
       Some (Post endpoint_chat
         (Json (JObj
           [(''model'', JStr ''llama3''),
            (''messages'', JArr (full_history ''You are a helpful assistant.'' [] ''hello'')),
            (''options'', JObj [])]))
         [])
   \<and> snd (send ''u1'' (LLMChat_init\<lparr>draft := ''hello''\<rparr>)) =
       Some (Post endpoint_chat
         (Json (JObj
           [(''model'', JUndefined),
            (''messages'', JArr (full_history ''You are a helpful assistant.'' [] ''hello'')),
            (''options'', JObj [])]))
         [])"
proof -
  have names: "filter truthy (map (\<lambda>m. opt_get m ''name'')
      [JObj [(''name'', JStr ''llama3'')], JObj [(''size'', JNum (Finite 7))],
       JObj [(''name'', JStr [])], JObj [(''name'', JStr ''mistral'')]]) =
      [JStr ''llama3'', JStr ''mistral'']"
    by simp
  have h: "\<not> truthy (model LLMChat_init) \<and> trim ''hello'' \<noteq> [] \<and> \<not> loading LLMChat_init"
    by (simp add: LLMChat_init_def trim_hello)
  have i: "systemPrompt LLMChat_init = ''You are a helpful assistant.''
      \<and> messages LLMChat_init = []"
    by (simp add: LLMChat_init_def)
  show ?thesis
    using loadModels_selects_first_name [of models_response
        "[JObj [(''name'', JStr ''llama3'')], JObj [(''size'', JNum (Finite 7))],
          JObj [(''name'', JStr [])], JObj [(''name'', JStr ''mistral'')]]"
        LLMChat_init LLMChat_init "JStr ''llama3''" "[JStr ''mistral'']" "''hello''" "''u1''"]
      models_response_array names h i
    by (simp add: trim_hello)
qed

end
